theory Spec2Isabelle
  imports Complex_Main "HOL-Library.Sublist" "HOL-Library.Multiset"
begin

section \<open>Strings and the regular expressions of the text normalizer\<close>

text \<open>
  Source: \<^verbatim>\<open>mcp-server/src/prompt-registry-mcp.ts\<close>, class \<^verbatim>\<open>PromptRegistryMCP\<close>.

  A JavaScript string is modelled as a \<^typ>\<open>string\<close>, one \<^typ>\<open>char\<close> per code unit, read as
  ASCII text: \<^verbatim>\<open>toLowerCase\<close> and \<^verbatim>\<open>toUpperCase\<close> move the letters A-Z and a-z and
  leave every other code unit alone, white space (\<^verbatim>\<open>trim\<close>, \<^verbatim>\<open>\s\<close>) is TAB, LF, VT, FF,
  CR and SPACE, and the line terminators that \<^verbatim>\<open>.\<close> refuses are LF and CR. A JavaScript
  number is modelled as a \<^typ>\<open>real\<close>: arithmetic is exact, and there is no NaN.
\<close>

type_synonym number = real

definition toLowerChar :: "char \<Rightarrow> char" where
  "toLowerChar c =
     (let n = (of_char c :: nat) in if 65 \<le> n \<and> n \<le> 90 then char_of (n + 32) else c)"

definition toUpperChar :: "char \<Rightarrow> char" where
  "toUpperChar c =
     (let n = (of_char c :: nat) in if 97 \<le> n \<and> n \<le> 122 then char_of (n - 32) else c)"

definition toLowerCase :: "string \<Rightarrow> string" where
  "toLowerCase s = map toLowerChar s"

definition isSpace :: "char \<Rightarrow> bool" where
  "isSpace c = (let n = (of_char c :: nat) in (9 \<le> n \<and> n \<le> 13) \<or> n = 32)"

definition isLineTerminator :: "char \<Rightarrow> bool" where
  "isLineTerminator c = (let n = (of_char c :: nat) in n = 10 \<or> n = 13)"

text \<open>\<^verbatim>\<open>\w\<close>: the characters A-Z, a-z, 0-9 and the underscore.\<close>

definition isWordChar :: "char \<Rightarrow> bool" where
  "isWordChar c =
     (let n = (of_char c :: nat)
      in (65 \<le> n \<and> n \<le> 90) \<or> (97 \<le> n \<and> n \<le> 122) \<or> (48 \<le> n \<and> n \<le> 57) \<or> n = 95)"

definition isLetter :: "char \<Rightarrow> bool" where
  "isLetter c = (let n = (of_char c :: nat) in (65 \<le> n \<and> n \<le> 90) \<or> (97 \<le> n \<and> n \<le> 122))"

definition trim :: "string \<Rightarrow> string" where
  "trim s = rev (dropWhile isSpace (rev (dropWhile isSpace s)))"

text \<open>\<^verbatim>\<open>hay.includes(needle)\<close>: the needle occurs in the hay as a contiguous run.\<close>

fun includes_str :: "string \<Rightarrow> string \<Rightarrow> bool" where
  "includes_str [] needle = (needle = [])"
| "includes_str (c # cs) needle = (prefix needle (c # cs) \<or> includes_str cs needle)"

text \<open>
  A literal of a pattern under the flag \<^verbatim>\<open>i\<close>: the pattern's literals are all written in
  lower case, so the text matches when its lower-cased start is the literal.
\<close>

definition prefix_ci :: "string \<Rightarrow> string \<Rightarrow> bool" where
  "prefix_ci lit s = (toLowerCase (take (length lit) s) = lit)"

text \<open>
  A pattern is modelled by what it does at one position of the text: given the character
  before the position (for \<^verbatim>\<open>\b\<close>; \<open>None\<close> at the start of the text) and the text from the
  position on, it fails, or it matches \<open>Suc k\<close> characters and yields the text that replaces
  them. No pattern of this program matches the empty string.
\<close>

type_synonym matcher = "char option \<Rightarrow> string \<Rightarrow> (string \<times> nat) option"

text \<open>\<^verbatim>\<open>text.replace(/re/, rep)\<close>: the leftmost match is replaced, the rest is kept.\<close>

fun replaceFirst :: "matcher \<Rightarrow> char option \<Rightarrow> string \<Rightarrow> string" where
  "replaceFirst m prev [] = []"
| "replaceFirst m prev (c # cs) =
     (case m prev (c # cs) of
        Some (rep, k) \<Rightarrow> rep @ drop k cs
      | None \<Rightarrow> c # replaceFirst m (Some c) cs)"

text \<open>\<^verbatim>\<open>/re/.test(text)\<close>: the pattern matches at some position.\<close>

fun testRe :: "matcher \<Rightarrow> char option \<Rightarrow> string \<Rightarrow> bool" where
  "testRe m prev [] = False"
| "testRe m prev (c # cs) = (m prev (c # cs) \<noteq> None \<or> testRe m (Some c) cs)"

text \<open>
  \<^verbatim>\<open>text.replace(/re/g, rep)\<close>: every match is replaced, the scan going on behind each
  match; \<^verbatim>\<open>\b\<close> there still sees the last character of the match.
\<close>

function replaceAll :: "matcher \<Rightarrow> char option \<Rightarrow> string \<Rightarrow> string" where
  "replaceAll m prev [] = []"
| "replaceAll m prev (c # cs) =
     (case m prev (c # cs) of
        Some (rep, k) \<Rightarrow> rep @ replaceAll m (Some ((c # cs) ! min k (length cs))) (drop k cs)
      | None \<Rightarrow> c # replaceAll m (Some c) cs)"
  by pat_completeness auto
termination
  by (relation "measure (\<lambda>(m, prev, s). length s)") auto

subsection \<open>The patterns of \<^verbatim>\<open>normalizeIntent\<close>\<close>

text \<open>
  \<^verbatim>\<open>/^(hi|hello|hey)\s*,?\s*/i\<close>, replaced by the empty string. The pattern is anchored, so
  it is tried at the start of the text only; the three optional parts after the word are
  greedy and never fail.
\<close>

definition greetingWord :: "string \<Rightarrow> string option" where
  "greetingWord s =
     (if prefix_ci ''hi'' s then Some (drop 2 s)
      else if prefix_ci ''hello'' s then Some (drop 5 s)
      else if prefix_ci ''hey'' s then Some (drop 3 s)
      else None)"

definition dropComma :: "string \<Rightarrow> string" where
  "dropComma s = (case s of [] \<Rightarrow> [] | c # cs \<Rightarrow> if c = CHR '','' then cs else c # cs)"

definition stripGreeting :: "string \<Rightarrow> string" where
  "stripGreeting s =
     (case greetingWord s of
        None \<Rightarrow> s
      | Some rest \<Rightarrow> dropWhile isSpace (dropComma (dropWhile isSpace rest)))"

text \<open>
  \<^verbatim>\<open>/lit(.*)/i\<close> replaced by \<^verbatim>\<open>rep$1\<close>: the literal, then the rest of the line, which the
  group captures and the replacement gives back.
\<close>

definition litRest :: "string \<Rightarrow> string \<Rightarrow> matcher" where
  "litRest lit rep prev s =
     (if prefix_ci lit s
      then (let line = takeWhile (\<lambda>c. \<not> isLineTerminator c) (drop (length lit) s)
            in Some (rep @ line, length lit + length line - 1))
      else None)"

text \<open>
  The greedy \<^verbatim>\<open>(.*)\<close> before a literal: the split of a line at the last place where the
  literal occurs, as the text before it and the text behind it.
\<close>

fun splitLast :: "string \<Rightarrow> string \<Rightarrow> (string \<times> string) option" where
  "splitLast lit [] = None"
| "splitLast lit (c # cs) =
     (case splitLast lit cs of
        Some (x, r) \<Rightarrow> Some (c # x, r)
      | None \<Rightarrow> if prefix_ci lit (c # cs) then Some ([], drop (length lit) (c # cs)) else None)"

text \<open>
  \<^verbatim>\<open>/how does (.*) work/i\<close> replaced by \<^verbatim>\<open>explain $1\<close>. The group may be empty, so the
  literal \<^verbatim>\<open>" work"\<close> is looked for from the last character of \<^verbatim>\<open>"how does "\<close> on.
\<close>

definition howDoesWork :: matcher where
  "howDoesWork prev s =
     (if prefix_ci ''how does '' s
      then (let line = takeWhile (\<lambda>c. \<not> isLineTerminator c) (drop 9 s)
            in case splitLast '' work'' line of
                 Some (x, r) \<Rightarrow> Some (''explain '' @ x, 9 + length x + 5 - 1)
               | None \<Rightarrow> None)
      else None)"

definition normalizeIntent :: "string \<Rightarrow> string" where
  "normalizeIntent text =
     (let normalized = trim (toLowerCase text);
          normalized = stripGreeting normalized;
          normalized = replaceFirst (litRest ''can you '' []) None normalized;
          normalized = replaceFirst (litRest ''could you '' []) None normalized;
          normalized = replaceFirst (litRest ''would you '' []) None normalized;
          normalized = replaceFirst (litRest ''please '' []) None normalized;
          normalized = replaceFirst (litRest ''tell me '' ''explain '') None normalized;
          normalized = replaceFirst howDoesWork None normalized;
          normalized = replaceFirst (litRest ''what is '' ''define '') None normalized
      in trim normalized)"

subsection \<open>The patterns of \<^verbatim>\<open>removeNoise\<close> and \<^verbatim>\<open>standardizeFormat\<close>\<close>

definition nth_opt :: "string \<Rightarrow> nat \<Rightarrow> char option" where
  "nth_opt s i = (if i < length s then Some (s ! i) else None)"

text \<open>\<^verbatim>\<open>\b\<close>: exactly one of the two neighbours is a word character (the ends count as none).\<close>

definition isWordOpt :: "char option \<Rightarrow> bool" where
  "isWordOpt c = (case c of None \<Rightarrow> False | Some x \<Rightarrow> isWordChar x)"

definition wordBoundary :: "char option \<Rightarrow> char option \<Rightarrow> bool" where
  "wordBoundary a b = (isWordOpt a \<noteq> isWordOpt b)"

text \<open>
  \<^verbatim>\<open>/\b(w1|w2|...)\b/gi\<close> replaced by the empty string: the alternatives are tried in the
  order written, and one whose end is not at a word boundary gives way to the next.
\<close>

definition wordAlt :: "string list \<Rightarrow> matcher" where
  "wordAlt alts prev s =
     (if wordBoundary prev (nth_opt s 0)
      then (case List.find
                   (\<lambda>w. prefix_ci w s \<and> wordBoundary (nth_opt s (length w - 1)) (nth_opt s (length w)))
                   alts of
              Some w \<Rightarrow> Some ([], length w - 1)
            | None \<Rightarrow> None)
      else None)"

text \<open>\<^verbatim>\<open>/[c]{2,}/g\<close> replaced by one \<^verbatim>\<open>c\<close>.\<close>

definition runOf :: "char \<Rightarrow> matcher" where
  "runOf ch prev s =
     (let n = length (takeWhile (\<lambda>c. c = ch) s) in if 2 \<le> n then Some ([ch], n - 1) else None)"

definition removeNoise :: "string \<Rightarrow> string" where
  "removeNoise text =
     (let cleaned = text;
          cleaned = replaceAll
             (wordAlt [''um'', ''uh'', ''like'', ''you know'', ''basically'', ''literally'']) None cleaned;
          cleaned = replaceAll (wordAlt [''please'', ''thanks'', ''thank you'']) None cleaned;
          cleaned = replaceAll (wordAlt [''can you'', ''could you'', ''would you'']) None cleaned;
          cleaned = replaceAll (runOf (CHR ''!'')) None cleaned;
          cleaned = replaceAll (runOf (CHR ''?'')) None cleaned;
          cleaned = replaceAll (runOf (CHR ''.'')) None cleaned
      in trim cleaned)"

definition isPunct :: "char \<Rightarrow> bool" where
  "isPunct c = (c \<in> set '',.!?'')"

text \<open>\<^verbatim>\<open>/\s+/g\<close> replaced by one space.\<close>

definition spaceRun :: matcher where
  "spaceRun prev s =
     (let n = length (takeWhile isSpace s) in if 1 \<le> n then Some ('' '', n - 1) else None)"

text \<open>\<^verbatim>\<open>/\s+([,.!?])/g\<close> replaced by \<^verbatim>\<open>$1\<close>.\<close>

definition spaceBeforePunct :: matcher where
  "spaceBeforePunct prev s =
     (let n = length (takeWhile isSpace s)
      in if 1 \<le> n
         then (case drop n s of
                 [] \<Rightarrow> None
               | p # rest \<Rightarrow> if isPunct p then Some ([p], n) else None)
         else None)"

text \<open>\<^verbatim>\<open>/([,.!?])([A-Za-z])/g\<close> replaced by \<^verbatim>\<open>$1 $2\<close>.\<close>

definition punctLetter :: matcher where
  "punctLetter prev s =
     (case s of
        p # l # rest \<Rightarrow> if isPunct p \<and> isLetter l then Some ([p, CHR '' '', l], 1) else None
      | _ \<Rightarrow> None)"

definition standardizeFormat :: "string \<Rightarrow> string" where
  "standardizeFormat text =
     (let formatted = trim (replaceAll spaceRun None text);
          formatted = replaceAll spaceBeforePunct None formatted;
          formatted = replaceAll punctLetter None formatted
      in case formatted of
           [] \<Rightarrow> formatted
         | c # cs \<Rightarrow> if toLowerChar c = c then toUpperChar c # cs else formatted)"

text \<open>
  \<^verbatim>\<open>calculateConfidence\<close>: the Jaccard similarity of the two sets of lower-cased
  characters, in four tiers; equal strings are answered before anything is computed.
\<close>

definition calculateConfidence :: "string \<Rightarrow> string \<Rightarrow> number" where
  "calculateConfidence original processed =
     (if original = processed then 1.0
      else (let originalChars = remdups (toLowerCase original);
                processedChars = remdups (toLowerCase processed);
                intersection = filter (\<lambda>x. x \<in> set processedChars) originalChars;
                unionChars = remdups (originalChars @ processedChars);
                similarity = real (length intersection) / real (length unionChars)
            in if similarity > 0.8 then 0.9
               else if similarity > 0.6 then 0.7
               else if similarity > 0.4 then 0.5
               else 0.3))"

section \<open>Preprocessing\<close>

record ProcessedInput =
  original_input :: string
  processed_input :: string
  transformations_applied :: "string list"
  confidence :: number

text \<open>
  One round of the loop over \<^verbatim>\<open>transformsToApply\<close>, the \<^verbatim>\<open>switch\<close>: a name that is
  none of the three cases changes nothing and is not recorded.
\<close>

definition applyTransform :: "string \<Rightarrow> string \<times> string list \<Rightarrow> string \<times> string list" where
  "applyTransform transform acc =
     (let processedText = fst acc; applied = snd acc
      in if transform = ''intent_normalization''
         then (normalizeIntent processedText, applied @ [''intent_normalization''])
         else if transform = ''noise_removal''
         then (removeNoise processedText, applied @ [''noise_removal''])
         else if transform = ''format_standardization''
         then (standardizeFormat processedText, applied @ [''format_standardization''])
         else (processedText, applied))"

fun applyTransforms :: "string list \<Rightarrow> string \<times> string list \<Rightarrow> string \<times> string list" where
  "applyTransforms [] acc = acc"
| "applyTransforms (transform # rest) acc = applyTransforms rest (applyTransform transform acc)"

definition defaultTransformations :: "string list" where
  "defaultTransformations = [''intent_normalization'', ''noise_removal'']"

text \<open>
  \<^verbatim>\<open>preprocessInput({input_text, transformations, prompt_id})\<close>. The field
  \<^verbatim>\<open>transformations\<close> is \<open>None\<close> when the caller left it out; an array, also the empty
  one, is truthy in JavaScript, so \<^verbatim>\<open>transformations || defaultTransformations\<close> keeps it.
\<close>

definition preprocessInput :: "string \<Rightarrow> string list option \<Rightarrow> string option \<Rightarrow> ProcessedInput" where
  "preprocessInput input_text transformations pid =
     (let transformsToApply =
            (case transformations of None \<Rightarrow> defaultTransformations | Some ts \<Rightarrow> ts);
          (processedText, appliedTransformations) = applyTransforms transformsToApply (input_text, [])
      in \<lparr> original_input = input_text,
           processed_input = processedText,
           transformations_applied = appliedTransformations,
           confidence = calculateConfidence input_text processedText \<rparr>)"

section \<open>The data model\<close>

text \<open>
  The interfaces of the source as records. A field name that two interfaces share, or that
  is a constant of the logic, carries a prefix: \<^verbatim>\<open>Prompt.id\<close> is \<open>p_id\<close>,
  \<^verbatim>\<open>PromptPackage.name\<close> is \<open>pkg_name\<close>, \<^verbatim>\<open>PromptAnalytics.prompt_id\<close> is
  \<open>a_prompt_id\<close>. An optional field is an \<^typ>\<open>'a option\<close>.
\<close>

record Prompt =
  p_id :: string
  p_name :: string
  content :: string
  p_version :: string
  p_description :: "string option"
  tags :: "string list"
  p_author :: "string option"
  usage_count :: number
  p_success_rate :: "number option"

record PromptPackage =
  pkg_name :: string
  pkg_version :: string
  pkg_description :: "string option"
  pkg_author :: "string option"
  prompts :: "Prompt list"

record PromptGrade =
  prompt_id :: string
  user_input :: string
  ai_response :: string
  overall_score :: number
  accuracy :: number
  helpfulness :: number
  completeness :: number
  clarity :: number
  reasoning :: string
  grader_type :: string
  is_successful :: bool

record PromptAnalytics =
  a_prompt_id :: string
  total_uses :: number
  successful_uses :: number
  failed_uses :: number
  success_rate :: number
  average_score :: number
  common_failures :: "string list"
  improvement_suggestions :: "string list"
  last_updated :: string

text \<open>
  What the grading backend answers to one request. The request is the fixed template
  filled with the user input, the response and the expected outcome, so the answer is a
  function of the three. \<open>CallFailed\<close> is a call that throws; \<open>ContentInvalid\<close> is a
  message whose content \<^verbatim>\<open>JSON.parse\<close> refuses, or parses to \<^verbatim>\<open>null\<close>; \<open>Content\<close> is
  a parsed object, each expected field a number or absent (a message without content is
  parsed from \<^verbatim>\<open>"{}"\<close>: every field absent).
\<close>

record GradeData =
  gd_overall_score :: "number option"
  gd_accuracy :: "number option"
  gd_helpfulness :: "number option"
  gd_completeness :: "number option"
  gd_clarity :: "number option"
  gd_reasoning :: "string option"

datatype llm_reply = CallFailed string | ContentInvalid string | Content GradeData

type_synonym backend = "string \<Rightarrow> string \<Rightarrow> string option \<Rightarrow> llm_reply"

text \<open>
  The state of a \<^verbatim>\<open>PromptRegistryMCP\<close>: the two \<^verbatim>\<open>Map\<close>s and the optional client.
  \<^verbatim>\<open>packages\<close> is iterated in insertion order, so it is an association list;
  \<^verbatim>\<open>analytics\<close> is only read and written by key.
\<close>

record Registry =
  packages :: "(string \<times> PromptPackage) list"
  analytics :: "string \<rightharpoonup> PromptAnalytics"
  openai :: "backend option"

text \<open>The errors the operations throw, by their message.\<close>

datatype error =
    NoPromptsAvailable
  | OpenAIClientNotInitialized
  | LLMGradingFailed string

section \<open>The rule-based grader\<close>

text \<open>\<^verbatim>\<open>s.split(c)\<close> for a separator of one character: never empty.\<close>

fun split_on :: "char \<Rightarrow> string \<Rightarrow> string list" where
  "split_on sep [] = [[]]"
| "split_on sep (c # cs) =
     (if c = sep then [] # split_on sep cs
      else (c # hd (split_on sep cs)) # tl (split_on sep cs))"

definition clamp :: "number \<Rightarrow> number" where
  "clamp score = max 1.0 (min 10.0 score)"

definition errorIndicators :: "string list" where
  "errorIndicators = [''i don't know'', ''i can't'', ''i'm not sure'', ''i don't have access'']"

definition scoreAccuracy :: "string \<Rightarrow> string \<Rightarrow> number" where
  "scoreAccuracy input response =
     (let score = 5.0;
          score = (if list_ex (\<lambda>indicator. includes_str (toLowerCase response) indicator) errorIndicators
                   then score - 2.0 else score);
          score = (if real (length response) > 50 then score + 1.0 else score)
      in clamp score)"

definition actionWords :: "string list" where
  "actionWords = [''here's'', ''you can'', ''try'', ''use'', ''follow'', ''steps'']"

definition scoreHelpfulness :: "string \<Rightarrow> string \<Rightarrow> number" where
  "scoreHelpfulness input response =
     (let score = 5.0;
          score = (if real (length response) > real (length input) * 0.5 then score + 2.0 else score);
          score = (if list_ex (\<lambda>word. includes_str (toLowerCase response) word) actionWords
                   then score + 1.0 else score)
      in clamp score)"

definition scoreCompleteness :: "string \<Rightarrow> string \<Rightarrow> number" where
  "scoreCompleteness input response =
     (let score = 5.0;
          score = (if real (length response) > real (length input) * 2 then score + 2.0 else score);
          score = (if length (split_on (CHR 0x0A) response) > 2 \<or> length (split_on (CHR ''.'') response) > 3
                   then score + 1.0 else score)
      in clamp score)"

definition scoreClarity :: "string \<Rightarrow> number" where
  "scoreClarity response =
     (let score = 5.0;
          score = (if includes_str response [CHR 0x0A] then score + 1.0 else score);
          sentences = split_on (CHR ''.'') response;
          score = (if length sentences > 1
                   then (let avgLength = real (foldl (\<lambda>sum s. sum + length s) 0 sentences)
                                           / real (length sentences)
                         in if avgLength > 10 \<and> avgLength < 50 then score + 1.0 else score)
                   else score)
      in clamp score)"

definition gradeWithRules :: "string \<Rightarrow> string \<Rightarrow> string \<Rightarrow> string option \<Rightarrow> PromptGrade" where
  "gradeWithRules pid input response expected_outcome =
     (let accuracy = scoreAccuracy input response;
          helpfulness = scoreHelpfulness input response;
          completeness = scoreCompleteness input response;
          clarity = scoreClarity response;
          overallScore = (accuracy + helpfulness + completeness + clarity) / 4
      in \<lparr> prompt_id = pid,
           user_input = input,
           ai_response = response,
           overall_score = overallScore,
           accuracy = accuracy,
           helpfulness = helpfulness,
           completeness = completeness,
           clarity = clarity,
           reasoning = ''Rule-based grading'',
           grader_type = ''rule_based'',
           is_successful = (overallScore \<ge> 7.0) \<rparr>)"

section \<open>The model-delegated grader\<close>

text \<open>\<^verbatim>\<open>x || d\<close> on an optional number: absent and \<^verbatim>\<open>0\<close> are falsy.\<close>

definition orNumber :: "number option \<Rightarrow> number \<Rightarrow> number" where
  "orNumber x d = (case x of None \<Rightarrow> d | Some v \<Rightarrow> if v = 0 then d else v)"

definition orString :: "string option \<Rightarrow> string \<Rightarrow> string" where
  "orString x d = (case x of None \<Rightarrow> d | Some v \<Rightarrow> if v = [] then d else v)"

definition gradeWithLLM ::
  "backend option \<Rightarrow> string \<Rightarrow> string \<Rightarrow> string \<Rightarrow> string option \<Rightarrow> error + PromptGrade" where
  "gradeWithLLM client pid input response expected_outcome =
     (case client of
        None \<Rightarrow> Inl OpenAIClientNotInitialized
      | Some create \<Rightarrow>
          (case create input response expected_outcome of
             CallFailed cause \<Rightarrow> Inl (LLMGradingFailed cause)
           | ContentInvalid cause \<Rightarrow> Inl (LLMGradingFailed cause)
           | Content gradeData \<Rightarrow>
               Inr \<lparr> prompt_id = pid,
                     user_input = input,
                     ai_response = response,
                     overall_score = orNumber (gd_overall_score gradeData) 5.0,
                     accuracy = orNumber (gd_accuracy gradeData) 5.0,
                     helpfulness = orNumber (gd_helpfulness gradeData) 5.0,
                     completeness = orNumber (gd_completeness gradeData) 5.0,
                     clarity = orNumber (gd_clarity gradeData) 5.0,
                     reasoning = orString (gd_reasoning gradeData) ''LLM grading'',
                     grader_type = ''llm'',
                     is_successful = (orNumber (gd_overall_score gradeData) 5.0 \<ge> 7.0) \<rparr>))"

section \<open>Analytics\<close>

text \<open>
  \<^verbatim>\<open>updateAnalytics(grade)\<close>; \<open>now\<close> is the time stamp \<^verbatim>\<open>new Date().toISOString()\<close> of
  the call. The record found is updated in place, under the key it was found at.
\<close>

definition updateAnalytics ::
  "string \<Rightarrow> PromptGrade \<Rightarrow> (string \<rightharpoonup> PromptAnalytics) \<Rightarrow> (string \<rightharpoonup> PromptAnalytics)" where
  "updateAnalytics now grade an =
     (case an (prompt_id grade) of
        Some existing \<Rightarrow>
          (let existing = existing\<lparr>total_uses := total_uses existing + 1\<rparr>;
               existing = (if is_successful grade
                           then existing\<lparr>successful_uses := successful_uses existing + 1\<rparr>
                           else existing\<lparr>failed_uses := failed_uses existing + 1\<rparr>);
               existing = existing\<lparr>success_rate := successful_uses existing / total_uses existing\<rparr>;
               existing = existing\<lparr>average_score :=
                            (average_score existing * (total_uses existing - 1) + overall_score grade)
                              / total_uses existing\<rparr>;
               existing = existing\<lparr>last_updated := now\<rparr>
           in an(prompt_id grade \<mapsto> existing))
      | None \<Rightarrow>
          an(prompt_id grade \<mapsto>
            \<lparr> a_prompt_id = prompt_id grade,
              total_uses = 1,
              successful_uses = (if is_successful grade then 1 else 0),
              failed_uses = (if is_successful grade then 0 else 1),
              success_rate = (if is_successful grade then 1.0 else 0.0),
              average_score = overall_score grade,
              common_failures = [],
              improvement_suggestions = [],
              last_updated = now \<rparr>))"

text \<open>
  \<^verbatim>\<open>gradePromptExecution(args)\<close>. \<open>requested\<close> is the field \<^verbatim>\<open>grader_type\<close> of the
  arguments, \<open>None\<close> when left out (then it is \<^verbatim>\<open>"rule_based"\<close>). The result is the grade
  that is serialised to the caller, with the state after the call, or the error thrown.
\<close>

definition gradePromptExecution ::
  "string \<Rightarrow> Registry \<Rightarrow> string \<Rightarrow> string \<Rightarrow> string \<Rightarrow> string option \<Rightarrow> string option
     \<Rightarrow> error + (PromptGrade \<times> Registry)" where
  "gradePromptExecution now st pid input response expected_outcome requested =
     (let grader = (case requested of None \<Rightarrow> ''rule_based'' | Some g \<Rightarrow> g);
          graded = (if grader = ''llm'' \<and> openai st \<noteq> None
                    then gradeWithLLM (openai st) pid input response expected_outcome
                    else Inr (gradeWithRules pid input response expected_outcome))
      in case graded of
           Inl e \<Rightarrow> Inl e
         | Inr grade \<Rightarrow> Inr (grade, st\<lparr>analytics := updateAnalytics now grade (analytics st)\<rparr>))"

section \<open>The catalog: search, selection, usage tracking\<close>

text \<open>The prompts of all packages, in the order the loops of the source visit them.\<close>

definition allPrompts :: "Registry \<Rightarrow> Prompt list" where
  "allPrompts st = concat (map (\<lambda>kv. prompts (snd kv)) (packages st))"









text \<open>
  \<^verbatim>\<open>getBestPrompt\<close>, the test made on one prompt in the first pair of loops: three
  branches, each of which takes the prompt.
\<close>

definition tagRule :: "string \<Rightarrow> Prompt \<Rightarrow> bool" where
  "tagRule inputLower prompt =
     (let promptTags = map toLowerCase (tags prompt)
      in if includes_str inputLower ''code'' \<and> ''code'' \<in> set promptTags then True
         else if includes_str inputLower ''customer'' \<and> ''customer'' \<in> set promptTags then True
         else if includes_str inputLower ''explain'' \<and> ''educational'' \<in> set promptTags then True
         else False)"

fun findByTags :: "string \<Rightarrow> (string \<times> PromptPackage) list \<Rightarrow> Prompt option" where
  "findByTags inputLower [] = None"
| "findByTags inputLower (kv # rest) =
     (case List.find (tagRule inputLower) (prompts (snd kv)) of
        Some prompt \<Rightarrow> Some prompt
      | None \<Rightarrow> findByTags inputLower rest)"

text \<open>
  The second pair of loops: \<^verbatim>\<open>mostUsed\<close> and \<^verbatim>\<open>maxUsage\<close>, which starts at \<^verbatim>\<open>0\<close>, are
  carried through all prompts.
\<close>

definition mostUsedStep :: "Prompt option \<times> number \<Rightarrow> Prompt \<Rightarrow> Prompt option \<times> number" where
  "mostUsedStep acc prompt =
     (if usage_count prompt > snd acc then (Some prompt, usage_count prompt) else acc)"

definition findMostUsed :: "(string \<times> PromptPackage) list \<Rightarrow> Prompt option" where
  "findMostUsed pkgs =
     fst (foldl (\<lambda>acc kv. foldl mostUsedStep acc (prompts (snd kv))) (None, 0) pkgs)"

text \<open>
  \<^verbatim>\<open>getBestPrompt({user_input, context})\<close>: the prompt chosen, the preprocessing of the
  input with the default pipeline, and the input itself; or the error thrown.
\<close>

definition getBestPrompt :: "Registry \<Rightarrow> string \<Rightarrow> error + (Prompt \<times> ProcessedInput \<times> string)" where
  "getBestPrompt st input =
     (let inputLower = toLowerCase input;
          bestPrompt = findByTags inputLower (packages st);
          bestPrompt = (case bestPrompt of
                          Some prompt \<Rightarrow> Some prompt
                        | None \<Rightarrow> findMostUsed (packages st))
      in case bestPrompt of
           None \<Rightarrow> Inl NoPromptsAvailable
         | Some prompt \<Rightarrow> Inr (prompt, preprocessInput input None (Some (p_id prompt)), input))"





section \<open>Example inputs\<close>

text \<open>A registry with no package, no analytics record and no grading backend.\<close>

definition noBackend :: Registry where
  "noBackend = \<lparr> packages = [], analytics = Map.empty, openai = None \<rparr>"

text \<open>
  A backend whose answer is the object
  \<^verbatim>\<open>{"overall_score": 42, "accuracy": 11}\<close>, and a registry configured with it.
\<close>

definition overScoring :: backend where
  "overScoring input response expected_outcome =
     Content \<lparr> gd_overall_score = Some 42, gd_accuracy = Some 11, gd_helpfulness = None,
               gd_completeness = None, gd_clarity = None, gd_reasoning = None \<rparr>"

definition withBackend :: Registry where
  "withBackend = \<lparr> packages = [], analytics = Map.empty, openai = Some overScoring \<rparr>"

text \<open>
  A catalog as it is right after loading a prompt file that gives no \<^verbatim>\<open>usage_count\<close>
  and no tags: the loader fills in \<^verbatim>\<open>0\<close> and the empty list.
\<close>

definition unusedPrompt :: Prompt where
  "unusedPrompt =
     \<lparr> p_id = ''greeter'', p_name = ''Greeter'', content = ''Say hello.'',
       p_version = ''1.0.0'', p_description = None, tags = [], p_author = None,
       usage_count = 0, p_success_rate = None \<rparr>"

definition freshRegistry :: Registry where
  "freshRegistry =
     \<lparr> packages = [(''basic'', \<lparr> pkg_name = ''basic'', pkg_version = ''1.0.0'',
                         pkg_description = None, pkg_author = None, prompts = [unusedPrompt] \<rparr>)],
       analytics = Map.empty, openai = None \<rparr>"

section \<open>Reference notions for the properties\<close>

text \<open>
  A run of grading calls, each with its time stamp, folded into the analytics in the order
  of the calls; the grades among them that are for one prompt id; and what it means for an
  analytics record to summarise a list of grades.
\<close>

definition recordGrades ::
  "(string \<times> PromptGrade) list \<Rightarrow> (string \<rightharpoonup> PromptAnalytics) \<Rightarrow> (string \<rightharpoonup> PromptAnalytics)" where
  "recordGrades calls an = foldl (\<lambda>an call. updateAnalytics (fst call) (snd call) an) an calls"

definition gradesFor :: "string \<Rightarrow> (string \<times> PromptGrade) list \<Rightarrow> PromptGrade list" where
  "gradesFor pid calls = filter (\<lambda>grade. prompt_id grade = pid) (map snd calls)"

definition summarises :: "PromptAnalytics \<Rightarrow> PromptGrade list \<Rightarrow> bool" where
  "summarises a gs =
     (total_uses a = real (length gs)
      \<and> successful_uses a = real (length (filter is_successful gs))
      \<and> failed_uses a = real (length (filter (\<lambda>g. \<not> is_successful g) gs))
      \<and> success_rate a = successful_uses a / real (length gs)
      \<and> average_score a = sum_list (map overall_score gs) / real (length gs))"

text \<open>Three grading calls: two for the prompt \<^verbatim>\<open>p\<close>, one in between for another.\<close>

definition exampleGrade :: "string \<Rightarrow> number \<Rightarrow> PromptGrade" where
  "exampleGrade pid score =
     \<lparr> prompt_id = pid, user_input = ''q'', ai_response = ''a'', overall_score = score,
       accuracy = score, helpfulness = score, completeness = score, clarity = score,
       reasoning = ''Rule-based grading'', grader_type = ''rule_based'',
       is_successful = (score \<ge> 7.0) \<rparr>"

definition exampleCalls :: "(string \<times> PromptGrade) list" where
  "exampleCalls =
     [(''t1'', exampleGrade ''p'' 8), (''t2'', exampleGrade ''other'' 3), (''t3'', exampleGrade ''p'' 5)]"








text \<open>
  For the intent normalizer: its seven rewrite rules in the order of the source.
\<close>

definition intentRules :: "matcher list" where
  "intentRules =
     [litRest ''can you '' [], litRest ''could you '' [], litRest ''would you '' [],
      litRest ''please '' [], litRest ''tell me '' ''explain '', howDoesWork,
      litRest ''what is '' ''define '']"



text \<open>
  A text has a pattern of the normalizer when the greeting pattern matches at its start or
  one of the seven rules matches somewhere in it.
\<close>

definition hasIntentPattern :: "string \<Rightarrow> bool" where
  "hasIntentPattern s = (greetingWord s \<noteq> None \<or> list_ex (\<lambda>rule. testRe rule None s) intentRules)"



section \<open>Properties: preprocessing\<close>

text \<open>
  Claim C10. A call of \<^verbatim>\<open>preprocess_input\<close> whose \<^verbatim>\<open>transformations\<close> is the empty list
  applies no transform: the processed text is the input text, no transformation is
  recorded and the confidence is exactly 1. The default pipeline runs when the field is
  absent: then intent normalization and noise removal are recorded, in this order, and the
  processed text is the input sent through both.
\<close>

theorem preprocessInput_empty_transformations:
  "preprocessInput input_text (Some []) pid =
     \<lparr> original_input = input_text, processed_input = input_text,
       transformations_applied = [], confidence = 1 \<rparr>
   \<and> transformations_applied (preprocessInput input_text None pid) =
       [''intent_normalization'', ''noise_removal'']
   \<and> processed_input (preprocessInput input_text None pid) =
       removeNoise (normalizeIntent input_text)"
  by (simp add: preprocessInput_def calculateConfidence_def defaultTransformations_def
      applyTransform_def split: prod.splits)

section \<open>Properties: grading\<close>

lemma gradeWithRules_example:
  "gradeWithRules ''p'' ''how?'' ''I don't know'' None =
     \<lparr> prompt_id = ''p'', user_input = ''how?'', ai_response = ''I don't know'',
       overall_score = 5.5, accuracy = 3, helpfulness = 7, completeness = 7, clarity = 5,
       reasoning = ''Rule-based grading'', grader_type = ''rule_based'',
       is_successful = False \<rparr>"
  by code_simp

text \<open>
  Claim C1, as stated, fails. With no backend configured, a request for the grader
  \<^verbatim>\<open>llm\<close> is not refused: the test \<^verbatim>\<open>grader_type === "llm" && this.openai\<close> sends it to
  the rule-based grader. At the registry \<open>noBackend\<close> the call returns a grade, the
  rule-based one, and the analytics record of the prompt, absent before, is there after.
\<close>

theorem gradePromptExecution_llm_no_backend_counterexample:
  "\<not> isl (gradePromptExecution ''t'' noBackend ''p'' ''how?'' ''I don't know'' None (Some ''llm''))
   \<and> fst (projr (gradePromptExecution ''t'' noBackend ''p'' ''how?'' ''I don't know'' None (Some ''llm''))) =
       \<lparr> prompt_id = ''p'', user_input = ''how?'', ai_response = ''I don't know'',
         overall_score = 5.5, accuracy = 3, helpfulness = 7, completeness = 7, clarity = 5,
         reasoning = ''Rule-based grading'', grader_type = ''rule_based'',
         is_successful = False \<rparr>
   \<and> analytics noBackend ''p'' = None
   \<and> analytics (snd (projr (gradePromptExecution ''t'' noBackend ''p'' ''how?'' ''I don't know'' None
                                (Some ''llm'')))) ''p'' =
       Some \<lparr> a_prompt_id = ''p'', total_uses = 1, successful_uses = 0, failed_uses = 1,
              success_rate = 0, average_score = 5.5, common_failures = [],
              improvement_suggestions = [], last_updated = ''t'' \<rparr>"
  by (simp add: gradePromptExecution_def noBackend_def updateAnalytics_def gradeWithRules_example)

text \<open>
  Claim C1, amended. For every call of \<^verbatim>\<open>grade_prompt_execution\<close> with grader type
  \<^verbatim>\<open>llm\<close> while no backend is configured, no failure is signalled: the call returns the
  grade of the rule-based grader, tagged \<^verbatim>\<open>rule_based\<close>, and folds it into the analytics
  of the prompt id, as the same call with grader type \<^verbatim>\<open>rule_based\<close> does.
\<close>

theorem gradePromptExecution_llm_no_backend:
  assumes "openai st = None"
  shows "gradePromptExecution now st pid input response expected (Some ''llm'') =
           Inr (gradeWithRules pid input response expected,
                st\<lparr>analytics :=
                     updateAnalytics now (gradeWithRules pid input response expected) (analytics st)\<rparr>)
         \<and> gradePromptExecution now st pid input response expected (Some ''llm'') =
           gradePromptExecution now st pid input response expected (Some ''rule_based'')
         \<and> grader_type (gradeWithRules pid input response expected) = ''rule_based''
         \<and> updateAnalytics now (gradeWithRules pid input response expected) (analytics st) pid \<noteq> None"
  using assms
  by (simp add: gradePromptExecution_def gradeWithRules_def updateAnalytics_def Let_def
      split: option.splits)

theorem gradePromptExecution_llm_no_backend_witness:
  "openai noBackend = None
   \<and> gradePromptExecution ''t'' noBackend ''p'' ''how?'' ''I don't know'' None (Some ''llm'') =
       gradePromptExecution ''t'' noBackend ''p'' ''how?'' ''I don't know'' None (Some ''rule_based'')"
proof -
  have h: "openai noBackend = None"
    by (simp add: noBackend_def)
  note t = gradePromptExecution_llm_no_backend
    [OF h, of "''t''" "''p''" "''how?''" "''I don't know''" None]
  show ?thesis
    by (rule conjI, rule h, rule conjunct1 [OF conjunct2 [OF t]])
qed

text \<open>
  Whatever the backend answers, a grade of the grader \<^verbatim>\<open>llm\<close> has its success flag set
  exactly when its overall score is at least 7.
\<close>

lemma gradeWithLLM_success_flag:
  "gradeWithLLM client pid input response expected = Inr g \<Longrightarrow>
     is_successful g = (7 \<le> overall_score g) \<and> grader_type g = ''llm''"
  by (auto simp: gradeWithLLM_def split: option.splits llm_reply.splits)

text \<open>
  Claim C6, evaluated where it fails. The grader \<^verbatim>\<open>llm\<close> stores the numbers of the
  backend's answer as they are: for the answer \<^verbatim>\<open>{"overall_score": 42, "accuracy": 11}\<close>
  the call succeeds with a grade whose overall score is 42 and whose accuracy is 11, both
  above 10. The sub-scorers of the rule-based grader clamp to the interval from 1 to 10.
\<close>

theorem gradePromptExecution_llm_score_out_of_range:
  "\<not> isl (gradePromptExecution ''t'' withBackend ''p'' ''q'' ''a'' None (Some ''llm''))
   \<and> overall_score (fst (projr (gradePromptExecution ''t'' withBackend ''p'' ''q'' ''a'' None
                                   (Some ''llm'')))) = 42
   \<and> accuracy (fst (projr (gradePromptExecution ''t'' withBackend ''p'' ''q'' ''a'' None
                              (Some ''llm'')))) = 11
   \<and> grader_type (fst (projr (gradePromptExecution ''t'' withBackend ''p'' ''q'' ''a'' None
                                 (Some ''llm'')))) = ''llm''"
  by (simp add: gradePromptExecution_def withBackend_def gradeWithLLM_def overScoring_def
      orNumber_def)

section \<open>Properties: selection\<close>

text \<open>
  What the selection does on every catalog. The first pair of loops returns the first
  prompt in catalog order that passes the tag test, whatever the packages. The fallback
  returns nothing exactly when no prompt has a usage count above 0; otherwise it returns
  the first prompt among those of the largest usage count.
\<close>

lemma findByTags_first:
  "findByTags inputLower pkgs =
     List.find (tagRule inputLower) (concat (map (\<lambda>kv. prompts (snd kv)) pkgs))"
proof (induction pkgs)
  case Nil
  then show ?case by simp
next
  case (Cons kv rest)
  have app: "List.find P (xs @ ys) = (case List.find P xs of Some x \<Rightarrow> Some x | None \<Rightarrow> List.find P ys)"
    for P :: "Prompt \<Rightarrow> bool" and xs ys
    by (induction xs) simp_all
  from Cons show ?case by (simp add: app split: option.splits)
qed


lemma foldl_mostUsedStep:
  assumes "foldl mostUsedStep (b, m) xs = (b', m')"
  shows "if \<forall>q\<in>set xs. usage_count q \<le> m then (b', m') = (b, m)
         else (\<exists>ys p zs. xs = ys @ p # zs \<and> b' = Some p \<and> m' = usage_count p \<and> m < usage_count p
                 \<and> (\<forall>q\<in>set ys. usage_count q < usage_count p)
                 \<and> (\<forall>q\<in>set zs. usage_count q \<le> usage_count p))"
  using assms
proof (induction xs arbitrary: b m)
  case Nil
  then show ?case by simp
next
  case (Cons x xs)
  show ?case
  proof (cases "m < usage_count x")
    case True
    then have "mostUsedStep (b, m) x = (Some x, usage_count x)"
      by (simp add: mostUsedStep_def)
    with Cons.prems have run: "foldl mostUsedStep (Some x, usage_count x) xs = (b', m')"
      by simp
    note ih = Cons.IH [OF run]
    show ?thesis
    proof (cases "\<forall>q\<in>set xs. usage_count q \<le> usage_count x")
      case all: True
      with ih have "b' = Some x" "m' = usage_count x" by simp_all
      with all True have "x # xs = [] @ x # xs \<and> b' = Some x \<and> m' = usage_count x \<and> m < usage_count x
                 \<and> (\<forall>q\<in>set []. usage_count q < usage_count x)
                 \<and> (\<forall>q\<in>set xs. usage_count q \<le> usage_count x)"
        by simp
      then have "\<exists>ys p zs. x # xs = ys @ p # zs \<and> b' = Some p \<and> m' = usage_count p \<and> m < usage_count p
                 \<and> (\<forall>q\<in>set ys. usage_count q < usage_count p)
                 \<and> (\<forall>q\<in>set zs. usage_count q \<le> usage_count p)"
        by blast
      with True show ?thesis by auto
    next
      case False
      with ih obtain ys p zs where w: "xs = ys @ p # zs" "b' = Some p" "m' = usage_count p"
           "usage_count x < usage_count p" "\<forall>q\<in>set ys. usage_count q < usage_count p"
           "\<forall>q\<in>set zs. usage_count q \<le> usage_count p"
        by auto
      with True have "x # xs = (x # ys) @ p # zs \<and> b' = Some p \<and> m' = usage_count p \<and> m < usage_count p
                 \<and> (\<forall>q\<in>set (x # ys). usage_count q < usage_count p)
                 \<and> (\<forall>q\<in>set zs. usage_count q \<le> usage_count p)"
        by simp
      then have "\<exists>ys p zs. x # xs = ys @ p # zs \<and> b' = Some p \<and> m' = usage_count p \<and> m < usage_count p
                 \<and> (\<forall>q\<in>set ys. usage_count q < usage_count p)
                 \<and> (\<forall>q\<in>set zs. usage_count q \<le> usage_count p)"
        by blast
      with True show ?thesis by auto
    qed
  next
    case False
    then have "mostUsedStep (b, m) x = (b, m)"
      by (simp add: mostUsedStep_def)
    with Cons.prems have run: "foldl mostUsedStep (b, m) xs = (b', m')"
      by simp
    note ih = Cons.IH [OF run]
    show ?thesis
    proof (cases "\<forall>q\<in>set xs. usage_count q \<le> m")
      case True
      with ih False show ?thesis by simp
    next
      case nall: False
      with ih obtain ys p zs where w: "xs = ys @ p # zs" "b' = Some p" "m' = usage_count p"
           "m < usage_count p" "\<forall>q\<in>set ys. usage_count q < usage_count p"
           "\<forall>q\<in>set zs. usage_count q \<le> usage_count p"
        by auto
      with False have "x # xs = (x # ys) @ p # zs \<and> b' = Some p \<and> m' = usage_count p \<and> m < usage_count p
                 \<and> (\<forall>q\<in>set (x # ys). usage_count q < usage_count p)
                 \<and> (\<forall>q\<in>set zs. usage_count q \<le> usage_count p)"
        by simp
      then have "\<exists>ys p zs. x # xs = ys @ p # zs \<and> b' = Some p \<and> m' = usage_count p \<and> m < usage_count p
                 \<and> (\<forall>q\<in>set ys. usage_count q < usage_count p)
                 \<and> (\<forall>q\<in>set zs. usage_count q \<le> usage_count p)"
        by blast
      with nall show ?thesis by auto
    qed
  qed
qed

lemma findMostUsed_concat:
  "findMostUsed pkgs = fst (foldl mostUsedStep (None, 0) (concat (map (\<lambda>kv. prompts (snd kv)) pkgs)))"
proof -
  have "foldl (\<lambda>acc kv. foldl mostUsedStep acc (prompts (snd kv))) acc pkgs =
          foldl mostUsedStep acc (concat (map (\<lambda>kv. prompts (snd kv)) pkgs))" for acc
    by (induction pkgs arbitrary: acc) simp_all
  then show ?thesis by (simp add: findMostUsed_def)
qed

lemma findMostUsed_None:
  "(findMostUsed (packages st) = None) = (\<forall>q\<in>set (allPrompts st). usage_count q \<le> 0)"
proof -
  obtain b' m' where r: "foldl mostUsedStep (None, 0) (allPrompts st) = (b', m')"
    by (cases "foldl mostUsedStep (None, 0) (allPrompts st)")
  from foldl_mostUsedStep [OF r] r show ?thesis
    by (auto simp: findMostUsed_concat allPrompts_def split: if_splits)
qed

lemma findMostUsed_Some:
  assumes "findMostUsed (packages st) = Some p"
  shows "\<exists>ys zs. allPrompts st = ys @ p # zs \<and> 0 < usage_count p
           \<and> (\<forall>q\<in>set ys. usage_count q < usage_count p)
           \<and> (\<forall>q\<in>set zs. usage_count q \<le> usage_count p)"
proof -
  obtain b' m' where r: "foldl mostUsedStep (None, 0) (allPrompts st) = (b', m')"
    by (cases "foldl mostUsedStep (None, 0) (allPrompts st)")
  with assms have b: "b' = Some p"
    by (simp add: findMostUsed_concat allPrompts_def)
  from foldl_mostUsedStep [OF r] b show ?thesis
    by (auto split: if_splits)
qed

lemma getBestPrompt_fails_iff:
  "(getBestPrompt st input = Inl NoPromptsAvailable) =
     (List.find (tagRule (toLowerCase input)) (allPrompts st) = None
      \<and> (\<forall>q\<in>set (allPrompts st). usage_count q \<le> 0))"
  by (auto simp: getBestPrompt_def Let_def findByTags_first allPrompts_def [symmetric]
      findMostUsed_None [symmetric] split: option.splits)

lemma getBestPrompt_by_tag:
  "List.find (tagRule (toLowerCase input)) (allPrompts st) = Some p \<Longrightarrow>
     getBestPrompt st input = Inr (p, preprocessInput input None (Some (p_id p)), input)"
  by (simp add: getBestPrompt_def Let_def findByTags_first allPrompts_def [symmetric])

text \<open>
  Claim C2, evaluated where it fails. The fallback starts \<^verbatim>\<open>maxUsage\<close> at \<^verbatim>\<open>0\<close> and
  takes a prompt only when its count is greater, so a prompt that was never used is never
  taken: on a catalog that holds one prompt, with usage count 0 and no tag, the selection
  throws \<^verbatim>\<open>No prompts available\<close>.
\<close>

theorem getBestPrompt_unused_catalog_fails:
  "allPrompts freshRegistry = [unusedPrompt]
   \<and> getBestPrompt freshRegistry ''hello'' = Inl NoPromptsAvailable"
  by (rule conjI, simp add: allPrompts_def freshRegistry_def, code_simp)

section \<open>Properties: analytics\<close>

lemma updateAnalytics_other:
  "prompt_id g \<noteq> pid \<Longrightarrow> updateAnalytics now g an pid = an pid"
  by (simp add: updateAnalytics_def Let_def split: option.splits)

lemma updateAnalytics_first:
  "an (prompt_id g) = None \<Longrightarrow>
     \<exists>a. updateAnalytics now g an (prompt_id g) = Some a \<and> summarises a [g]"
  by (simp add: updateAnalytics_def summarises_def)

lemma updateAnalytics_next:
  assumes "an (prompt_id g) = Some a" and "summarises a gs" and "gs \<noteq> []"
  shows "\<exists>a'. updateAnalytics now g an (prompt_id g) = Some a' \<and> summarises a' (gs @ [g])"
proof -
  from assms(3) have n: "real (length gs) \<noteq> 0" by simp
  from assms(2) have avg: "average_score a * real (length gs) = sum_list (map overall_score gs)"
    using n by (simp add: summarises_def)
  show ?thesis
    using assms(1,2) n avg
    by (simp add: updateAnalytics_def summarises_def Let_def)
qed

lemma recordGrades_summarises:
  assumes "an pid = None"
  shows "if gradesFor pid calls = [] then recordGrades calls an pid = None
         else (\<exists>a. recordGrades calls an pid = Some a \<and> summarises a (gradesFor pid calls))"
proof (induction calls rule: rev_induct)
  case Nil
  then show ?case using assms by (simp add: recordGrades_def gradesFor_def)
next
  case (snoc c calls)
  have step: "recordGrades (calls @ [c]) an = updateAnalytics (fst c) (snd c) (recordGrades calls an)"
    by (simp add: recordGrades_def)
  show ?case
  proof (cases "prompt_id (snd c) = pid")
    case False
    then have "gradesFor pid (calls @ [c]) = gradesFor pid calls"
      by (simp add: gradesFor_def)
    with snoc False show ?thesis
      by (simp add: step updateAnalytics_other)
  next
    case True
    then have g: "gradesFor pid (calls @ [c]) = gradesFor pid calls @ [snd c]"
      by (simp add: gradesFor_def)
    show ?thesis
    proof (cases "gradesFor pid calls = []")
      case True
      with snoc have "recordGrades calls an (prompt_id (snd c)) = None"
        using \<open>prompt_id (snd c) = pid\<close> by simp
      with updateAnalytics_first [of "recordGrades calls an" "snd c" "fst c"] show ?thesis
        using True g \<open>prompt_id (snd c) = pid\<close> by (simp add: step)
    next
      case False
      with snoc obtain a where a: "recordGrades calls an pid = Some a" "summarises a (gradesFor pid calls)"
        by auto
      from a(1) have "recordGrades calls an (prompt_id (snd c)) = Some a"
        using \<open>prompt_id (snd c) = pid\<close> by simp
      with updateAnalytics_next [of "recordGrades calls an" "snd c" a "gradesFor pid calls" "fst c"]
      show ?thesis
        using a(2) False g \<open>prompt_id (snd c) = pid\<close> by (simp add: step)
    qed
  qed
qed

text \<open>
  Claim C3. Start from analytics with no record for a prompt id, and record any run of
  grades of which \<open>N \<ge> 1\<close> are for that id (grades for other ids may come in between).
  Then the record of the id exists, its \<^verbatim>\<open>total_uses\<close> is \<open>N\<close>, its
  \<^verbatim>\<open>successful_uses\<close> counts the grades of the id whose success flag is set,
  successful and failed uses add up to \<open>N\<close>, the success rate is the successful uses
  over \<open>N\<close>, and the average score is the arithmetic mean of the \<open>N\<close> overall scores.
  Numbers are reals here: the incremental mean is exact.
\<close>

theorem analytics_after_grades:
  assumes "an pid = None" and "gradesFor pid calls \<noteq> []"
  shows "\<exists>a. recordGrades calls an pid = Some a
           \<and> total_uses a = real (length (gradesFor pid calls))
           \<and> successful_uses a = real (length (filter is_successful (gradesFor pid calls)))
           \<and> successful_uses a + failed_uses a = real (length (gradesFor pid calls))
           \<and> success_rate a = successful_uses a / real (length (gradesFor pid calls))
           \<and> average_score a =
               sum_list (map overall_score (gradesFor pid calls)) / real (length (gradesFor pid calls))"
proof -
  from recordGrades_summarises [of an pid calls] assms
  obtain a where a: "recordGrades calls an pid = Some a" "summarises a (gradesFor pid calls)"
    by auto
  have "length (filter is_successful (gradesFor pid calls))
          + length (filter (\<lambda>g. \<not> is_successful g) (gradesFor pid calls))
        = length (gradesFor pid calls)"
    by (rule sum_length_filter_compl)
  then have "real (length (filter is_successful (gradesFor pid calls)))
          + real (length (filter (\<lambda>g. \<not> is_successful g) (gradesFor pid calls)))
        = real (length (gradesFor pid calls))"
    by (metis of_nat_add)
  with a show ?thesis
    by (auto simp: summarises_def)
qed

theorem analytics_after_grades_witness:
  "Map.empty ''p'' = (None :: PromptAnalytics option)
   \<and> gradesFor ''p'' exampleCalls \<noteq> []
   \<and> (\<exists>a. recordGrades exampleCalls Map.empty ''p'' = Some a
           \<and> total_uses a = real (length (gradesFor ''p'' exampleCalls))
           \<and> successful_uses a = real (length (filter is_successful (gradesFor ''p'' exampleCalls)))
           \<and> successful_uses a + failed_uses a = real (length (gradesFor ''p'' exampleCalls))
           \<and> success_rate a = successful_uses a / real (length (gradesFor ''p'' exampleCalls))
           \<and> average_score a =
               sum_list (map overall_score (gradesFor ''p'' exampleCalls))
                 / real (length (gradesFor ''p'' exampleCalls)))"
proof -
  have h1: "Map.empty ''p'' = (None :: PromptAnalytics option)"
    by simp
  have h2: "gradesFor ''p'' exampleCalls \<noteq> []"
    by (simp add: gradesFor_def exampleCalls_def exampleGrade_def)
  show ?thesis
    by (intro conjI h1 h2 analytics_after_grades [of Map.empty "''p''" exampleCalls, OF h1 h2])
qed

section \<open>Properties: the rule-based grader\<close>

lemma includes_str_sublist: "includes_str hay needle = sublist needle hay"
proof (induction hay)
  case Nil
  then show ?case by (cases needle) simp_all
next
  case (Cons c cs)
  then show ?case by (cases needle) (simp_all add: sublist_Cons_right)
qed

lemma includes_str_single: "includes_str s [c] = (c \<in> set s)"
  by (induction s) (auto simp: prefix_Cons)

lemma split_on_nonempty: "split_on sep s \<noteq> []"
  by (induction s) simp_all

lemma length_split_on: "length (split_on sep s) = count_list s sep + 1"
proof (induction s)
  case Nil
  then show ?case by simp
next
  case (Cons c cs)
  have "length (tl (split_on sep cs)) = count_list cs sep"
    using Cons by simp
  with Cons show ?case by simp
qed

lemma sum_length_split_on:
  "sum_list (map length (split_on sep s)) + count_list s sep = length s"
proof (induction s)
  case Nil
  then show ?case by simp
next
  case (Cons c cs)
  obtain w ws where w: "split_on sep cs = w # ws"
    using split_on_nonempty [of sep cs] by (cases "split_on sep cs") auto
  with Cons show ?case by simp
qed

lemma foldl_sum_length:
  "foldl (\<lambda>sum s. sum + length s) acc xs = acc + sum_list (map length xs)"
  by (induction xs arbitrary: acc) simp_all

lemma avg_sentence_length:
  "real (foldl (\<lambda>sum s. sum + length s) 0 (split_on sep s)) / real (length (split_on sep s))
     = (real (length s) - real (count_list s sep)) / (real (count_list s sep) + 1)"
proof -
  have "real (sum_list (map length (split_on sep s))) = real (length s) - real (count_list s sep)"
    using sum_length_split_on [of sep s] by linarith
  then show ?thesis
    by (simp add: foldl_sum_length length_split_on add.commute)
qed

lemma count_list_pos: "(0 < count_list s c) = (c \<in> set s)"
  by (induction s) auto

text \<open>
  Claim C7. For every user input and response the rule-based grader yields a grade, and
  grading with it never fails. Each sub-score is the baseline 5 plus the adjustments of its
  sub-scorer and lies between 1 and 10 (the clamp never cuts):
  accuracy loses 2 when the lower-cased response contains a hedging phrase and gains 1 when
  the response is longer than 50 characters; helpfulness gains 2 when the response is
  longer than half the input and 1 when it contains an action word; completeness gains 2
  when the response is longer than twice the input and 1 when it has more than 2 lines or
  more than 3 segments between periods; clarity gains 1 when the response has a line break
  and 1 when it has a period and the mean length of the segments between periods is
  strictly between 10 and 50. The overall score is the mean of the four, and the success
  flag says that it is at least 7.
\<close>

theorem gradeWithRules_heuristics:
  assumes "g = gradeWithRules pid input response expected"
  shows "accuracy g = 5
             + (if list_ex (\<lambda>phrase. sublist phrase (toLowerCase response)) errorIndicators then - 2 else 0)
             + (if 50 < length response then 1 else 0)
         \<and> helpfulness g = 5
             + (if real (length input) / 2 < real (length response) then 2 else 0)
             + (if list_ex (\<lambda>word. sublist word (toLowerCase response)) actionWords then 1 else 0)
         \<and> completeness g = 5
             + (if 2 * length input < length response then 2 else 0)
             + (if 2 < count_list response (CHR 0x0A) + 1 \<or> 3 < count_list response (CHR ''.'') + 1
                then 1 else 0)
         \<and> clarity g = 5
             + (if CHR 0x0A \<in> set response then 1 else 0)
             + (if CHR ''.'' \<in> set response
                   \<and> 10 < (real (length response) - real (count_list response (CHR ''.'')))
                            / (real (count_list response (CHR ''.'')) + 1)
                   \<and> (real (length response) - real (count_list response (CHR ''.'')))
                            / (real (count_list response (CHR ''.'')) + 1) < 50
                then 1 else 0)
         \<and> 1 \<le> accuracy g \<and> accuracy g \<le> 10
         \<and> 1 \<le> helpfulness g \<and> helpfulness g \<le> 10
         \<and> 1 \<le> completeness g \<and> completeness g \<le> 10
         \<and> 1 \<le> clarity g \<and> clarity g \<le> 10
         \<and> overall_score g = (accuracy g + helpfulness g + completeness g + clarity g) / 4
         \<and> 1 \<le> overall_score g \<and> overall_score g \<le> 10
         \<and> is_successful g = (7 \<le> overall_score g)
         \<and> gradePromptExecution now st pid input response expected (Some ''rule_based'') =
             Inr (g, st\<lparr>analytics := updateAnalytics now g (analytics st)\<rparr>)
         \<and> gradePromptExecution now st pid input response expected None =
             Inr (g, st\<lparr>analytics := updateAnalytics now g (analytics st)\<rparr>)"
proof -
  have acc: "accuracy g = 5
             + (if list_ex (\<lambda>phrase. sublist phrase (toLowerCase response)) errorIndicators then - 2 else 0)
             + (if 50 < length response then 1 else 0)"
    by (simp add: assms gradeWithRules_def scoreAccuracy_def clamp_def includes_str_sublist Let_def)
  have hlp: "helpfulness g = 5
             + (if real (length input) / 2 < real (length response) then 2 else 0)
             + (if list_ex (\<lambda>word. sublist word (toLowerCase response)) actionWords then 1 else 0)"
    by (simp add: assms gradeWithRules_def scoreHelpfulness_def clamp_def includes_str_sublist Let_def)
  have cmp: "completeness g = 5
             + (if 2 * length input < length response then 2 else 0)
             + (if 2 < count_list response (CHR 0x0A) + 1 \<or> 3 < count_list response (CHR ''.'') + 1
                then 1 else 0)"
    by (simp add: assms gradeWithRules_def scoreCompleteness_def clamp_def length_split_on Let_def)
  have seg: "(Suc 0 < length (split_on (CHR ''.'') response)) = (CHR ''.'' \<in> set response)"
    by (simp add: length_split_on count_list_pos)
  have clr: "clarity g = 5
             + (if CHR 0x0A \<in> set response then 1 else 0)
             + (if CHR ''.'' \<in> set response
                   \<and> 10 < (real (length response) - real (count_list response (CHR ''.'')))
                            / (real (count_list response (CHR ''.'')) + 1)
                   \<and> (real (length response) - real (count_list response (CHR ''.'')))
                            / (real (count_list response (CHR ''.'')) + 1) < 50
                then 1 else 0)"
    unfolding assms gradeWithRules_def scoreClarity_def Let_def
    by (simp add: clamp_def includes_str_single seg avg_sentence_length del: split_on.simps)
  have ov: "overall_score g = (accuracy g + helpfulness g + completeness g + clarity g) / 4"
    by (simp add: assms gradeWithRules_def Let_def)
  have suc: "is_successful g = (7 \<le> overall_score g)"
    by (simp add: assms gradeWithRules_def Let_def)
  have ra: "1 \<le> accuracy g \<and> accuracy g \<le> 10" using acc by (simp split: if_splits)
  have rh: "1 \<le> helpfulness g \<and> helpfulness g \<le> 10" using hlp by (simp split: if_splits)
  have rc: "1 \<le> completeness g \<and> completeness g \<le> 10" using cmp by (simp split: if_splits)
  have rl: "1 \<le> clarity g \<and> clarity g \<le> 10" using clr by (simp split: if_splits)
  have ro: "1 \<le> overall_score g \<and> overall_score g \<le> 10"
    using ra rh rc rl unfolding ov by simp
  have run1: "gradePromptExecution now st pid input response expected (Some ''rule_based'') =
             Inr (g, st\<lparr>analytics := updateAnalytics now g (analytics st)\<rparr>)"
    by (simp add: assms gradePromptExecution_def)
  have run2: "gradePromptExecution now st pid input response expected None =
             Inr (g, st\<lparr>analytics := updateAnalytics now g (analytics st)\<rparr>)"
    by (simp add: assms gradePromptExecution_def)
  show ?thesis
    using acc hlp cmp clr ra rh rc rl ov ro suc run1 run2 by blast
qed

theorem gradeWithRules_heuristics_witness:
  "accuracy (gradeWithRules ''p'' ''how?'' ''I don't know'' None) = 3
   \<and> helpfulness (gradeWithRules ''p'' ''how?'' ''I don't know'' None) = 7
   \<and> completeness (gradeWithRules ''p'' ''how?'' ''I don't know'' None) = 7
   \<and> clarity (gradeWithRules ''p'' ''how?'' ''I don't know'' None) = 5
   \<and> overall_score (gradeWithRules ''p'' ''how?'' ''I don't know'' None) = 5.5
   \<and> is_successful (gradeWithRules ''p'' ''how?'' ''I don't know'' None) = False"
proof -
  have hedge: "list_ex (\<lambda>phrase. sublist phrase (toLowerCase ''I don't know'')) errorIndicators"
    by code_simp
  have act: "\<not> list_ex (\<lambda>word. sublist word (toLowerCase ''I don't know'')) actionWords"
    by code_simp
  note t = gradeWithRules_heuristics
    [OF refl, of "''p''" "''how?''" "''I don't know''" None "''t''" noBackend]
  show ?thesis
    using t hedge act by simp
qed

section \<open>Properties: usage tracking\<close>









section \<open>Properties: search\<close>








section \<open>Properties: intent normalization\<close>






























text \<open>
  The greeting pattern has no word boundary behind the word: a text that starts with
  \<^verbatim>\<open>hi\<close> inside a longer word has the pattern, and loses the two letters. So
  \<^verbatim>\<open>history\<close>, the result for \<^verbatim>\<open>hi history\<close>, is not a fixed point, and it does
  not satisfy the hypothesis of the idempotence property either.
\<close>

lemma normalizeIntent_history:
  "normalizeIntent ''hi history'' = ''history''
   \<and> normalizeIntent ''history'' = ''story''
   \<and> hasIntentPattern ''history''"
  by (intro conjI; code_simp)

end
